theory Spec2Isabelle
  imports Main "HOL-Library.Word"
begin

unbundle bit_operations_syntax

section \<open>Data model\<close>

text \<open>
  The software timer system (swtimersys.c) and the software timer (swtimer.c) of embec,
  as a shallow embedding. All tick values are \<open>uint64_t\<close>, the timer width is a
  \<open>uint8_t\<close>; both are machine words, so \<open>+\<close>, \<open>-\<close> and \<open>*\<close> wrap around as the
  C operators do and \<open>div\<close> is the unsigned, truncating division.

  A pointer is an address; address 0 is \<open>NULL\<close>. A pointer argument whose target a function
  reads or writes is passed as an \<open>option\<close>: \<open>None\<close> is the \<open>NULL\<close> pointer, \<open>Some v\<close>
  a pointer to an object holding \<open>v\<close>, and the function returns the object's new content.
  The timer keeps a pointer to its timer system; the memory that holds the timer systems
  is a map from addresses to their current content, and \<open>deref\<close> reads it. An address
  at which the memory holds no timer system is read as \<open>NULL\<close> is: the assertion of the
  function that receives it fails.

  Every \<open>assert\<close> of the source is a branch returning an error: the model is the build
  with assertions enabled (without \<open>NDEBUG\<close>) and with the starvation awareness compiled in.
\<close>

type_synonym uint8_t = "8 word"
type_synonym uint64_t = "64 word"
type_synonym addr = nat

datatype error =
  Assert_Null_Pointer
  | Assert_Tick_Duration
  | Assert_Timer_Width
  | Assert_Tick_Count
  | Assert_Starving

text \<open>
  \<open>swtimersys_poll_callback_t\<close>: \<open>uint64_t (*)(const void *user_data_p)\<close>. The callback
  reads a hardware timer, so besides its argument it depends on the state of the hardware,
  of type \<open>'hw\<close>.
\<close>

type_synonym 'hw swtimersys_poll_callback_t = "addr \<Rightarrow> 'hw \<Rightarrow> uint64_t"

text \<open>\<open>swtimersys_t\<close>; a \<open>NULL\<close> callback is \<open>None\<close>.\<close>

record 'hw swtimersys =
  poll_cb :: "'hw swtimersys_poll_callback_t option"
  tick_counter :: uint64_t
  tick_duration_ns :: uint64_t
  timer_width_bits :: uint8_t
  timer_mask :: uint64_t
  user_data_p :: addr

type_synonym 'hw memory = "addr \<Rightarrow> 'hw swtimersys option"

definition deref :: "'hw memory \<Rightarrow> addr \<Rightarrow> 'hw swtimersys option" where
  "deref mem p = (if p = 0 then None else mem p)"

text \<open>
  \<open>swtimer_resolution_t\<close>: a C enumeration, that is an integer that can hold values other
  than its five enumerators.
\<close>

type_synonym swtimer_resolution_t = "32 word"

definition SWTIMER_TIMERTICK :: swtimer_resolution_t where "SWTIMER_TIMERTICK = 0"
definition SWTIMER_NS :: swtimer_resolution_t where "SWTIMER_NS = 1"
definition SWTIMER_US :: swtimer_resolution_t where "SWTIMER_US = 2"
definition SWTIMER_MS :: swtimer_resolution_t where "SWTIMER_MS = 3"
definition SWTIMER_S :: swtimer_resolution_t where "SWTIMER_S = 4"

text \<open>\<open>swtimer_starvation_tracking_t\<close>\<close>

record swtimer_starvation_tracking =
  invocation_limit :: uint64_t
  invocation_count :: uint64_t
  last_tick_count :: uint64_t

text \<open>
  \<open>swtimer_t\<close>. Its fields \<open>tick_duration_ns\<close> and \<open>timer_mask\<close> carry the prefix
  \<open>swtimer_\<close> here, apart from the fields of the same names of \<open>swtimersys_t\<close>.
\<close>

record swtimer =
  swtimersys_p :: addr
  start_tick_count :: uint64_t
  swtimer_tick_duration_ns :: uint64_t
  swtimer_timer_mask :: uint64_t
  starvation_tracking :: swtimer_starvation_tracking

section \<open>The timer system (swtimersys.c)\<close>

definition TIMER_BITS_MIN :: uint8_t where "TIMER_BITS_MIN = 2"
definition TIMER_BITS_MAX :: uint8_t where "TIMER_BITS_MAX = 64"

text \<open>
  The loop of \<open>create_mask\<close>:
  \<^verbatim>\<open>for (; bits_left; bits_left--) { mask <<= 1ull; mask |= 1ull; }\<close>
\<close>

function create_mask_loop :: "uint8_t \<Rightarrow> uint64_t \<Rightarrow> uint64_t" where
  "create_mask_loop bits_left mask_acc =
     (if bits_left \<noteq> 0
      then create_mask_loop (bits_left - 1) (push_bit 1 mask_acc OR 1)
      else mask_acc)"
  by pat_completeness auto
termination
  by (relation "measure (\<lambda>(bits_left, mask_acc). unat bits_left)")
     (auto simp: unat_minus_one unat_gt_0)

declare create_mask_loop.simps [simp del]

definition create_mask :: "uint8_t \<Rightarrow> uint64_t" where
  "create_mask bits = create_mask_loop bits 0"

text \<open>
  \<open>swtimersys_init\<close> as swtimersys.c defines it: it has four parameters and assigns
  \<open>timer_mask\<close>, \<open>tick_counter\<close>, \<open>tick_duration_ns\<close> and \<open>poll_cb\<close>; the fields
  \<open>timer_width_bits\<close> and \<open>user_data_p\<close> keep what the object held before the call.
\<close>

definition swtimersys_init ::
  "'hw swtimersys option \<Rightarrow> uint64_t \<Rightarrow> uint8_t \<Rightarrow> 'hw swtimersys_poll_callback_t option
    \<Rightarrow> error + 'hw swtimersys" where
  "swtimersys_init sys_p duration_ns width_bits cb =
     (case sys_p of
        None \<Rightarrow> Inl Assert_Null_Pointer
      | Some sys \<Rightarrow>
          if duration_ns = 0 then Inl Assert_Tick_Duration
          else if width_bits \<ge> TIMER_BITS_MIN \<and> width_bits \<le> TIMER_BITS_MAX
          then Inr (sys\<lparr>timer_mask := create_mask width_bits,
                        tick_counter := 0,
                        tick_duration_ns := duration_ns,
                        poll_cb := cb\<rparr>)
          else Inl Assert_Timer_Width)"

definition swtimersys_tick :: "'hw swtimersys option \<Rightarrow> uint64_t \<Rightarrow> error + 'hw swtimersys" where
  "swtimersys_tick sys_p tick_count =
     (case sys_p of
        None \<Rightarrow> Inl Assert_Null_Pointer
      | Some sys \<Rightarrow>
          if tick_count = 0 then Inl Assert_Tick_Count
          else
            let sys1 = sys\<lparr>tick_counter := tick_counter sys + tick_count\<rparr>
            in Inr (sys1\<lparr>tick_counter := tick_counter sys1 AND timer_mask sys1\<rparr>))"

definition swtimersys_poll_timer :: "'hw \<Rightarrow> 'hw swtimersys option \<Rightarrow> error + uint64_t" where
  "swtimersys_poll_timer hw sys_p =
     (case sys_p of
        None \<Rightarrow> Inl Assert_Null_Pointer
      | Some sys \<Rightarrow>
          (case poll_cb sys of
             Some cb \<Rightarrow> Inr (cb (user_data_p sys) hw)
           | None \<Rightarrow> Inr (tick_counter sys)))"

definition swtimersys_get_tick_duration_ns :: "'hw swtimersys option \<Rightarrow> error + uint64_t" where
  "swtimersys_get_tick_duration_ns sys_p =
     (case sys_p of None \<Rightarrow> Inl Assert_Null_Pointer | Some sys \<Rightarrow> Inr (tick_duration_ns sys))"

definition swtimersys_get_timer_mask :: "'hw swtimersys option \<Rightarrow> error + uint64_t" where
  "swtimersys_get_timer_mask sys_p =
     (case sys_p of None \<Rightarrow> Inl Assert_Null_Pointer | Some sys \<Rightarrow> Inr (timer_mask sys))"

section \<open>The timer (swtimer.c)\<close>

definition NS_IN_ONE_US :: uint64_t where "NS_IN_ONE_US = 1000"
definition NS_IN_ONE_MS :: uint64_t where "NS_IN_ONE_MS = 1000000"
definition NS_IN_ONE_SECOND :: uint64_t where "NS_IN_ONE_SECOND = 1000000000"
definition UINT64_MAX :: uint64_t where "UINT64_MAX = 18446744073709551615"

definition init_starvation_tracking ::
  "swtimer_starvation_tracking \<Rightarrow> uint64_t \<Rightarrow> swtimer_starvation_tracking" where
  "init_starvation_tracking st initial_tick_count = st\<lparr>last_tick_count := initial_tick_count\<rparr>"

definition is_starvation_tracking_enabled :: "swtimer_starvation_tracking \<Rightarrow> bool" where
  "is_starvation_tracking_enabled st = (0 \<noteq> invocation_limit st)"

definition manage_invocation_count ::
  "swtimer_starvation_tracking \<Rightarrow> uint64_t \<Rightarrow> swtimer_starvation_tracking" where
  "manage_invocation_count st tick_count =
     (let st1 =
        (if last_tick_count st = tick_count
         then (if invocation_count st < UINT64_MAX
               then st\<lparr>invocation_count := invocation_count st + 1\<rparr>
               else st)
         else st\<lparr>invocation_count := 0\<rparr>)
      in st1\<lparr>last_tick_count := tick_count\<rparr>)"

text \<open>\<open>is_timer_starving\<close> returns its result and the tracking data it has updated.\<close>

definition is_timer_starving ::
  "swtimer_starvation_tracking \<Rightarrow> uint64_t \<Rightarrow> bool \<times> swtimer_starvation_tracking" where
  "is_timer_starving st tick_count =
     (if \<not> is_starvation_tracking_enabled st then (False, st)
      else
        let st1 = manage_invocation_count st tick_count
        in (invocation_count st1 \<ge> invocation_limit st1, st1))"

definition get_elapsed_ticks :: "uint64_t \<Rightarrow> uint64_t \<Rightarrow> uint64_t \<Rightarrow> uint64_t" where
  "get_elapsed_ticks mask_of_timer start_tick tick_count =
     (if start_tick \<le> tick_count
      then tick_count - start_tick
      else (mask_of_timer - start_tick) + tick_count + 1)"

definition get_time_for_tick_count ::
  "uint64_t \<Rightarrow> uint64_t \<Rightarrow> swtimer_resolution_t \<Rightarrow> uint64_t" where
  "get_time_for_tick_count duration_ns tick_count resolution =
     (if resolution = SWTIMER_NS then tick_count * duration_ns
      else if resolution = SWTIMER_US then (tick_count * duration_ns) div NS_IN_ONE_US
      else if resolution = SWTIMER_MS then (tick_count * duration_ns) div NS_IN_ONE_MS
      else if resolution = SWTIMER_S then (tick_count * duration_ns) div NS_IN_ONE_SECOND
      else tick_count)"

text \<open>\<open>memset(swtimer_p, 0, sizeof(swtimer_t))\<close>\<close>

definition swtimer_zero :: swtimer where
  "swtimer_zero =
     \<lparr>swtimersys_p = 0, start_tick_count = 0, swtimer_tick_duration_ns = 0,
      swtimer_timer_mask = 0,
      starvation_tracking = \<lparr>invocation_limit = 0, invocation_count = 0, last_tick_count = 0\<rparr>\<rparr>"

definition swtimer_init ::
  "'hw memory \<Rightarrow> swtimer option \<Rightarrow> addr \<Rightarrow> uint64_t \<Rightarrow> error + swtimer" where
  "swtimer_init mem swtimer_p sys_p limit =
     (case swtimer_p of
        None \<Rightarrow> Inl Assert_Null_Pointer
      | Some t \<Rightarrow>
          if sys_p = 0 then Inl Assert_Null_Pointer
          else
            (case swtimersys_get_tick_duration_ns (deref mem sys_p) of
               Inl e \<Rightarrow> Inl e
             | Inr d \<Rightarrow>
                 (case swtimersys_get_timer_mask (deref mem sys_p) of
                    Inl e \<Rightarrow> Inl e
                  | Inr m \<Rightarrow>
                      Inr (swtimer_zero\<lparr>swtimersys_p := sys_p,
                                        swtimer_tick_duration_ns := d,
                                        swtimer_timer_mask := m,
                                        starvation_tracking :=
                                          (starvation_tracking swtimer_zero)
                                            \<lparr>invocation_limit := limit\<rparr>\<rparr>))))"

definition swtimer_start :: "'hw memory \<Rightarrow> 'hw \<Rightarrow> swtimer option \<Rightarrow> error + swtimer" where
  "swtimer_start mem hw swtimer_p =
     (case swtimer_p of
        None \<Rightarrow> Inl Assert_Null_Pointer
      | Some t \<Rightarrow>
          (case swtimersys_poll_timer hw (deref mem (swtimersys_p t)) of
             Inl e \<Rightarrow> Inl e
           | Inr tick \<Rightarrow>
               let t1 = t\<lparr>start_tick_count := tick\<rparr>
               in Inr (t1\<lparr>starvation_tracking :=
                           init_starvation_tracking (starvation_tracking t1)
                             (start_tick_count t1)\<rparr>)))"

text \<open>
  \<open>swtimer_get_time\<close> returns the time and the timer, whose starvation tracking data
  \<open>is_timer_starving\<close> has updated. The local variable \<open>tick_count\<close> is assigned twice:
  \<open>polled\<close> is its first value, the tick count polled from the timer system, and
  \<open>elapsed\<close> its second, the result of \<open>get_elapsed_ticks\<close>, which is the value passed
  on to \<open>is_timer_starving\<close> and to \<open>get_time_for_tick_count\<close>.
\<close>

definition swtimer_get_time ::
  "'hw memory \<Rightarrow> 'hw \<Rightarrow> swtimer option \<Rightarrow> swtimer_resolution_t \<Rightarrow> error + (swtimer \<times> uint64_t)" where
  "swtimer_get_time mem hw swtimer_p resolution =
     (case swtimer_p of
        None \<Rightarrow> Inl Assert_Null_Pointer
      | Some t \<Rightarrow>
          (case swtimersys_poll_timer hw (deref mem (swtimersys_p t)) of
             Inl e \<Rightarrow> Inl e
           | Inr polled \<Rightarrow>
               let elapsed = get_elapsed_ticks (swtimer_timer_mask t) (start_tick_count t) polled;
                   (starving, st) = is_timer_starving (starvation_tracking t) elapsed
               in if starving then Inl Assert_Starving
                  else Inr (t\<lparr>starvation_tracking := st\<rparr>,
                            get_time_for_tick_count (swtimer_tick_duration_ns t) elapsed
                              resolution)))"

section \<open>Callers\<close>

text \<open>
  A caller advancing one timer system by a sequence of \<open>swtimersys_tick\<close> calls; the first
  failed assertion ends the run.
\<close>

fun swtimersys_ticks :: "'hw swtimersys \<Rightarrow> uint64_t list \<Rightarrow> error + 'hw swtimersys" where
  "swtimersys_ticks sys [] = Inr sys"
| "swtimersys_ticks sys (n # ns) =
     (case swtimersys_tick (Some sys) n of
        Inl e \<Rightarrow> Inl e
      | Inr sys' \<Rightarrow> swtimersys_ticks sys' ns)"

text \<open>
  A caller using one timer: a sequence of \<open>swtimer_start\<close> and \<open>swtimer_get_time\<close> calls,
  each made in the memory and hardware state of its moment. The first failed assertion
  ends the run.
\<close>

datatype swtimer_call = Call_start | Call_get_time swtimer_resolution_t

fun swtimer_calls ::
  "('hw memory \<times> 'hw \<times> swtimer_call) list \<Rightarrow> swtimer \<Rightarrow> error + swtimer" where
  "swtimer_calls [] t = Inr t"
| "swtimer_calls ((mem, hw, Call_start) # cs) t =
     (case swtimer_start mem hw (Some t) of
        Inl e \<Rightarrow> Inl e
      | Inr t' \<Rightarrow> swtimer_calls cs t')"
| "swtimer_calls ((mem, hw, Call_get_time resolution) # cs) t =
     (case swtimer_get_time mem hw (Some t) resolution of
        Inl e \<Rightarrow> Inl e
      | Inr (t', v) \<Rightarrow> swtimer_calls cs t')"

subsection \<open>Concrete objects\<close>

text \<open>A zero-filled \<open>swtimersys_t\<close> object, as one in static storage is before its initialization.\<close>

definition swtimersys_zero :: "unit swtimersys" where
  "swtimersys_zero =
     \<lparr>poll_cb = None, tick_counter = 0, tick_duration_ns = 0, timer_width_bits = 0,
      timer_mask = 0, user_data_p = 0\<rparr>"

text \<open>
  An 8 bit timer system with ticks of 1000 ns and no poll callback, whose tick counter
  stands at \<open>v\<close>, and a memory holding it at address 1.
\<close>

definition example_sys :: "uint64_t \<Rightarrow> unit swtimersys" where
  "example_sys v =
     \<lparr>poll_cb = None, tick_counter = v, tick_duration_ns = 1000, timer_width_bits = 0,
      timer_mask = 255, user_data_p = 0\<rparr>"

definition example_mem :: "uint64_t \<Rightarrow> unit memory" where
  "example_mem v = (\<lambda>p. if p = 1 then Some (example_sys v) else None)"

text \<open>A timer on that timer system with the invocation limit, count and last tick count given.\<close>

definition example_timer :: "uint64_t \<Rightarrow> uint64_t \<Rightarrow> uint64_t \<Rightarrow> uint64_t \<Rightarrow> swtimer" where
  "example_timer start_tick limit n last_tick =
     \<lparr>swtimersys_p = 1, start_tick_count = start_tick, swtimer_tick_duration_ns = 1000,
      swtimer_timer_mask = 255,
      starvation_tracking =
        \<lparr>invocation_limit = limit, invocation_count = n, last_tick_count = last_tick\<rparr>\<rparr>"

text \<open>
  A 64 bit timer system with ticks of one second and no poll callback, whose tick counter
  stands at \<open>v\<close>, a memory holding it at address 1, and a timer on it that was started at
  tick 0 and has the starvation tracking disabled.
\<close>

definition seconds_sys :: "uint64_t \<Rightarrow> unit swtimersys" where
  "seconds_sys v =
     \<lparr>poll_cb = None, tick_counter = v, tick_duration_ns = 1000000000, timer_width_bits = 0,
      timer_mask = 18446744073709551615, user_data_p = 0\<rparr>"

definition seconds_mem :: "uint64_t \<Rightarrow> unit memory" where
  "seconds_mem v = (\<lambda>p. if p = 1 then Some (seconds_sys v) else None)"

definition seconds_timer :: swtimer where
  "seconds_timer =
     \<lparr>swtimersys_p = 1, start_tick_count = 0, swtimer_tick_duration_ns = 1000000000,
      swtimer_timer_mask = 18446744073709551615,
      starvation_tracking =
        \<lparr>invocation_limit = 0, invocation_count = 0, last_tick_count = 0\<rparr>\<rparr>"

text \<open>A poll callback whose result shows the context it was called with.\<close>

definition context_cb :: "unit swtimersys_poll_callback_t" where
  "context_cb ctx hw = word_of_nat ctx"

section \<open>Evaluation\<close>

lemmas swtimersys_defs =
  swtimersys_init_def swtimersys_tick_def swtimersys_poll_timer_def
  swtimersys_get_tick_duration_ns_def swtimersys_get_timer_mask_def deref_def
  TIMER_BITS_MIN_def TIMER_BITS_MAX_def

lemmas swtimer_defs =
  swtimer_init_def swtimer_start_def swtimer_get_time_def
  init_starvation_tracking_def is_starvation_tracking_enabled_def manage_invocation_count_def
  is_timer_starving_def get_elapsed_ticks_def get_time_for_tick_count_def
  NS_IN_ONE_US_def NS_IN_ONE_MS_def NS_IN_ONE_SECOND_def UINT64_MAX_def
  SWTIMER_TIMERTICK_def SWTIMER_NS_def SWTIMER_US_def SWTIMER_MS_def SWTIMER_S_def
  word_le_nat_alt word_less_nat_alt

lemmas example_defs =
  example_sys_def example_mem_def example_timer_def swtimersys_zero_def swtimer_zero_def
  seconds_sys_def seconds_mem_def seconds_timer_def context_cb_def

section \<open>The timer mask\<close>

lemma create_mask_loop_eq:
  "create_mask_loop b m = push_bit (unat b) m OR mask (unat b)"
proof (induction b m rule: create_mask_loop.induct)
  case (1 bits_left mask_acc)
  show ?case
  proof (cases "bits_left = 0")
    case True
    then show ?thesis by (simp add: create_mask_loop.simps)
  next
    case False
    then have u: "unat bits_left = Suc (unat (bits_left - 1))"
      by (simp add: unat_minus_one unat_gt_0)
    have "create_mask_loop bits_left mask_acc =
          create_mask_loop (bits_left - 1) (push_bit 1 mask_acc OR 1)"
      using False by (subst create_mask_loop.simps) simp
    also have "\<dots> = push_bit (unat (bits_left - 1)) (push_bit 1 mask_acc OR 1)
                     OR mask (unat (bits_left - 1))"
      using 1 False by simp
    also have "\<dots> = push_bit (unat bits_left) mask_acc OR mask (unat bits_left)"
      unfolding u
      by (simp add: mask_Suc_exp push_bit_of_1 ac_simps del: push_bit_of_Suc_0)
    finally show ?thesis .
  qed
qed

lemma create_mask_eq_mask: "create_mask b = mask (unat b)"
  by (simp add: create_mask_def create_mask_loop_eq)

lemma uint_create_mask:
  assumes "b \<le> 64"
  shows "uint (create_mask b) = 2 ^ unat b - 1"
proof -
  from assms have "unat b \<le> 64"
    by (simp add: word_le_nat_alt)
  then have "uint (mask (unat b) :: uint64_t) = (mask (unat b) :: int)"
    by (simp add: uint_mask_eq min_def)
  also have "\<dots> = 2 ^ unat b - 1"
    by (simp add: mask_eq_exp_minus_1)
  finally show ?thesis
    by (simp only: create_mask_eq_mask)
qed

lemma bit_create_mask:
  assumes "b \<le> 64"
  shows "bit (create_mask b) n \<longleftrightarrow> n < unat b"
proof -
  from assms have "unat b \<le> 64"
    by (simp add: word_le_nat_alt)
  then show ?thesis
    by (auto simp add: create_mask_eq_mask bit_simps)
qed

lemma create_mask_8: "create_mask 8 = 255"
  by (simp add: create_mask_eq_mask mask_eq_exp_minus_1)

lemma create_mask_64: "create_mask 64 = 18446744073709551615"
  by (simp add: create_mask_eq_mask mask_eq_exp_minus_1)

lemma swtimersys_init_Inr:
  assumes "swtimersys_init sp d w cb = Inr s"
  shows "tick_counter s = 0" and "timer_mask s = create_mask w" and "w \<le> 64"
    and "\<exists>s0. sp = Some s0 \<and> user_data_p s = user_data_p s0"
  using assms
  by (auto simp: swtimersys_init_def TIMER_BITS_MAX_def split: option.splits if_splits)

text \<open>
  C6: for every width from 2 to 64 bits the mask that \<open>create_mask\<close> builds is
  \<open>2 ^ width_bits - 1\<close>: exactly its \<open>width_bits\<close> low-order bits are set. For 64 bits it is
  the all-ones value \<open>UINT64_MAX\<close>. \<open>swtimersys_init\<close>, given a nonzero tick duration,
  succeeds and stores that mask.
\<close>

theorem create_mask_low_bits:
  assumes "TIMER_BITS_MIN \<le> width_bits" and "width_bits \<le> TIMER_BITS_MAX"
    and "duration_ns \<noteq> 0"
  shows "uint (create_mask width_bits) = 2 ^ unat width_bits - 1
       \<and> (\<forall>n. bit (create_mask width_bits) n \<longleftrightarrow> n < unat width_bits)
       \<and> create_mask TIMER_BITS_MAX = UINT64_MAX
       \<and> (\<exists>sys'. swtimersys_init (Some sys) duration_ns width_bits cb = Inr sys'
              \<and> uint (timer_mask sys') = 2 ^ unat width_bits - 1)"
proof -
  from assms(2) have w: "width_bits \<le> 64"
    by (simp add: TIMER_BITS_MAX_def)
  have "swtimersys_init (Some sys) duration_ns width_bits cb =
        Inr (sys\<lparr>timer_mask := create_mask width_bits, tick_counter := 0,
                 tick_duration_ns := duration_ns, poll_cb := cb\<rparr>)"
    using assms by (simp add: swtimersys_init_def)
  then show ?thesis
    using w by (simp add: uint_create_mask bit_create_mask create_mask_64
        TIMER_BITS_MAX_def UINT64_MAX_def)
qed

theorem create_mask_low_bits_witness:
  "TIMER_BITS_MIN \<le> (8 :: uint8_t) \<and> (8 :: uint8_t) \<le> TIMER_BITS_MAX
   \<and> (1000 :: uint64_t) \<noteq> 0
   \<and> uint (create_mask 8) = 255
   \<and> (\<forall>n. bit (create_mask 8) n \<longleftrightarrow> n < 8)
   \<and> (\<exists>sys'. swtimersys_init (Some swtimersys_zero) 1000 8 None = Inr sys'
          \<and> uint (timer_mask sys') = 255)"
proof -
  have h1: "TIMER_BITS_MIN \<le> (8 :: uint8_t)"
    and h2: "(8 :: uint8_t) \<le> TIMER_BITS_MAX"
    and h3: "(1000 :: uint64_t) \<noteq> 0"
    by (simp_all add: TIMER_BITS_MIN_def TIMER_BITS_MAX_def)
  show ?thesis
    using h1 h2 h3 create_mask_low_bits [OF h1 h2 h3, of swtimersys_zero None]
    by simp
qed

section \<open>Elapsed ticks\<close>

lemma uint_get_elapsed_ticks:
  fixes s c :: uint64_t
  assumes W: "W \<le> 64" and s: "uint s < 2 ^ unat W" and c: "uint c < 2 ^ unat W"
  shows "uint (get_elapsed_ticks (create_mask W) s c) = (uint c - uint s) mod 2 ^ unat W"
proof -
  define k where "k = unat W"
  have k: "k \<le> 64" using W by (simp add: k_def word_le_nat_alt)
  have M: "uint (create_mask W) = 2 ^ k - 1"
    using W by (simp add: uint_create_mask k_def)
  have p: "(2::int) ^ k \<le> 2 ^ 64"
    using power_increasing [of k 64 "2::int"] k by simp
  have s0: "0 \<le> uint s" and c0: "0 \<le> uint c" by simp_all
  show ?thesis
  proof (cases "s \<le> c")
    case True
    then have le: "uint s \<le> uint c" by (simp add: word_le_def)
    then have "uint (c - s) = uint c - uint s"
      by (simp add: uint_sub_lem)
    moreover have "(uint c - uint s) mod 2 ^ k = uint c - uint s"
    proof (rule mod_pos_pos_trivial)
      show "0 \<le> uint c - uint s" using le by simp
      show "uint c - uint s < 2 ^ k"
        using c s0 unfolding k_def [symmetric] by linarith
    qed
    ultimately show ?thesis
      using True by (simp add: get_elapsed_ticks_def k_def)
  next
    case False
    then have lt: "uint c < uint s" by (simp add: word_le_def)
    let ?v = "2 ^ k - uint s + uint c"
    have r: "0 \<le> ?v" "?v < 2 ^ k"
      using lt s c0 unfolding k_def [symmetric] by linarith+
    have "uint (create_mask W - s + c + 1) =
          (uint (create_mask W) - uint s + uint c + 1) mod 2 ^ 64"
      by (simp add: uint_word_ariths mod_simps)
    also have "\<dots> = ?v mod 2 ^ 64"
      by (simp add: M algebra_simps)
    also have "\<dots> = ?v"
      using r p by (simp add: mod_pos_pos_trivial)
    finally have e: "uint (create_mask W - s + c + 1) = ?v" .
    have "(uint c - uint s) mod 2 ^ k = (uint c - uint s + 2 ^ k) mod 2 ^ k"
      by simp
    also have "\<dots> = ?v"
      using r by (simp add: mod_pos_pos_trivial algebra_simps)
    finally show ?thesis
      using False e by (simp add: get_elapsed_ticks_def k_def)
  qed
qed

text \<open>
  C1: for a timer of width \<open>W\<close> from 2 to 64 bits, whose mask is \<open>create_mask W\<close>, and start
  and current ticks \<open>s\<close> and \<open>c\<close> below \<open>2 ^ W\<close>, \<open>get_elapsed_ticks\<close> returns
  \<open>(c - s) mod 2 ^ W\<close>. It returns 0 when the current tick is the start tick, and
  \<open>2 ^ W - 1\<close> when the current tick is \<open>p = (s - 1) mod 2 ^ W\<close>, the tick before the
  start tick.
\<close>

theorem get_elapsed_ticks_modular:
  fixes s c p :: uint64_t
  assumes "2 \<le> W" and "W \<le> 64"
    and "uint s < 2 ^ unat W" and "uint c < 2 ^ unat W"
    and "uint p = (uint s - 1) mod 2 ^ unat W"
  shows "uint (get_elapsed_ticks (create_mask W) s c) = (uint c - uint s) mod 2 ^ unat W
       \<and> get_elapsed_ticks (create_mask W) s s = 0
       \<and> uint (get_elapsed_ticks (create_mask W) s p) = 2 ^ unat W - 1"
proof -
  have pos: "(0::int) < 2 ^ unat W" by simp
  have p: "uint p < 2 ^ unat W"
    unfolding assms(5) using pos by (rule pos_mod_bound)
  have "uint (get_elapsed_ticks (create_mask W) s p) = (uint p - uint s) mod 2 ^ unat W"
    using assms(2,3) p by (rule uint_get_elapsed_ticks)
  also have "\<dots> = ((uint s - 1) - uint s) mod 2 ^ unat W"
    unfolding assms(5) by (simp add: mod_diff_left_eq)
  also have "\<dots> = (- 1) mod 2 ^ unat W"
    by simp
  also have "\<dots> = 2 ^ unat W - 1"
    using pos by (simp add: zmod_minus1)
  finally have last: "uint (get_elapsed_ticks (create_mask W) s p) = 2 ^ unat W - 1" .
  have same: "get_elapsed_ticks (create_mask W) s s = 0"
    by (simp add: get_elapsed_ticks_def)
  from uint_get_elapsed_ticks [OF assms(2,3,4)] same last show ?thesis
    by simp
qed

theorem get_elapsed_ticks_modular_witness:
  "(2 :: uint8_t) \<le> 8 \<and> (8 :: uint8_t) \<le> 64
   \<and> uint (250 :: uint64_t) < 2 ^ unat (8 :: uint8_t)
   \<and> uint (2 :: uint64_t) < 2 ^ unat (8 :: uint8_t)
   \<and> uint (249 :: uint64_t) = (uint (250 :: uint64_t) - 1) mod 2 ^ unat (8 :: uint8_t)
   \<and> uint (get_elapsed_ticks (create_mask 8) 250 2) = 8
   \<and> get_elapsed_ticks (create_mask 8) 250 250 = 0
   \<and> uint (get_elapsed_ticks (create_mask 8) 250 249) = 255"
proof -
  have h1: "(2 :: uint8_t) \<le> 8" and h2: "(8 :: uint8_t) \<le> 64"
    and h3: "uint (250 :: uint64_t) < 2 ^ unat (8 :: uint8_t)"
    and h4: "uint (2 :: uint64_t) < 2 ^ unat (8 :: uint8_t)"
    and h5: "uint (249 :: uint64_t) = (uint (250 :: uint64_t) - 1) mod 2 ^ unat (8 :: uint8_t)"
    by simp_all
  show ?thesis
    using h1 h2 h3 h4 h5 get_elapsed_ticks_modular [OF h1 h2 h3 h4 h5]
    by simp
qed

section \<open>Conversion to a resolution\<close>

lemma unat_mult_64: "unat (a * b :: uint64_t) = (unat a * unat b) mod 2 ^ 64"
  by (simp add: unat_word_ariths)

lemma get_time_default:
  assumes "r \<noteq> SWTIMER_NS" "r \<noteq> SWTIMER_US" "r \<noteq> SWTIMER_MS" "r \<noteq> SWTIMER_S"
  shows "get_time_for_tick_count d n r = n"
  using assms by (simp add: get_time_for_tick_count_def)

lemma get_time_timertick: "get_time_for_tick_count d n SWTIMER_TIMERTICK = n"
  by (simp add: get_time_for_tick_count_def SWTIMER_TIMERTICK_def SWTIMER_NS_def
      SWTIMER_US_def SWTIMER_MS_def SWTIMER_S_def)

text \<open>
  What a call of \<open>swtimer_get_time\<close> that returns, returns: the conversion of the ticks
  elapsed between the start tick and the tick count polled.
\<close>

lemma swtimer_get_time_value:
  assumes "swtimersys_poll_timer hw (deref mem (swtimersys_p t)) = Inr c"
    and "swtimer_get_time mem hw (Some t) r = Inr (t', v)"
  shows "v = get_time_for_tick_count (swtimer_tick_duration_ns t)
               (get_elapsed_ticks (swtimer_timer_mask t) (start_tick_count t) c) r"
  using assms
  by (auto simp: swtimer_get_time_def Let_def split: prod.splits if_splits)

lemma swtimer_get_time_default:
  assumes "r \<noteq> SWTIMER_NS" "r \<noteq> SWTIMER_US" "r \<noteq> SWTIMER_MS" "r \<noteq> SWTIMER_S"
  shows "swtimer_get_time mem hw tp r = swtimer_get_time mem hw tp SWTIMER_TIMERTICK"
  using assms
  by (simp add: swtimer_get_time_def get_time_default get_time_timertick Let_def
      split: option.splits sum.splits prod.splits)

text \<open>
  The claim C5 as stated, with the product \<open>t * d\<close> of the integers: it fails where the
  product does not fit 64 bits. With ticks of one second (\<open>d = 10 ^ 9\<close>) and \<open>t = 2 ^ 35\<close>
  elapsed ticks the nanoseconds returned are not \<open>t * d\<close>, and the microseconds are not
  \<open>(t * d) / 1000\<close>; \<open>swtimer_get_time\<close> returns that value for a 64 bit timer started at
  tick 0 and read at tick \<open>2 ^ 35\<close>.
\<close>

theorem get_time_product_overflow:
  "unat (get_time_for_tick_count 1000000000 34359738368 SWTIMER_NS)
     \<noteq> 34359738368 * 1000000000
   \<and> unat (get_time_for_tick_count 1000000000 34359738368 SWTIMER_US)
     \<noteq> (34359738368 * 1000000000) div 1000
   \<and> swtimer_get_time (seconds_mem 34359738368) () (Some seconds_timer) SWTIMER_NS
     = Inr (seconds_timer, 15912994294290448384)"
  by (simp add: swtimersys_defs swtimer_defs example_defs)

text \<open>
  C5, amended: the conversion multiplies in 64 bits. For every tick duration \<open>d\<close> and
  elapsed tick count \<open>t\<close> it returns \<open>(t * d) mod 2 ^ 64\<close> for nanoseconds, and that value
  divided, truncating, by 1000 for microseconds, by 1000000 for milliseconds and by
  1000000000 for seconds; for the raw-tick resolution it returns \<open>t\<close> unchanged. These are
  the values \<open>t * d\<close>, \<open>(t * d) / 1000\<close>, ... of the claim whenever \<open>t * d < 2 ^ 64\<close>.
\<close>

theorem get_time_for_tick_count_units:
  "unat (get_time_for_tick_count d t SWTIMER_NS) = (unat t * unat d) mod 2 ^ 64
   \<and> unat (get_time_for_tick_count d t SWTIMER_US) = ((unat t * unat d) mod 2 ^ 64) div 1000
   \<and> unat (get_time_for_tick_count d t SWTIMER_MS)
       = ((unat t * unat d) mod 2 ^ 64) div 1000000
   \<and> unat (get_time_for_tick_count d t SWTIMER_S)
       = ((unat t * unat d) mod 2 ^ 64) div 1000000000
   \<and> get_time_for_tick_count d t SWTIMER_TIMERTICK = t"
  by (simp add: get_time_for_tick_count_def SWTIMER_NS_def SWTIMER_US_def
      SWTIMER_MS_def SWTIMER_S_def SWTIMER_TIMERTICK_def
      NS_IN_ONE_US_def NS_IN_ONE_MS_def NS_IN_ONE_SECOND_def
      unat_div unat_mult_64)

text \<open>
  C10: for a resolution argument that is none of the five enumerators, the conversion takes
  the default branch: it returns the tick count unconverted, \<open>swtimer_get_time\<close> does what
  it does for \<open>SWTIMER_TIMERTICK\<close>, and a call that returns, returns the ticks elapsed
  between the start tick and the tick count \<open>c\<close> polled.
\<close>

theorem undefined_resolution_raw_ticks:
  assumes "resolution \<noteq> SWTIMER_TIMERTICK" and "resolution \<noteq> SWTIMER_NS"
    and "resolution \<noteq> SWTIMER_US" and "resolution \<noteq> SWTIMER_MS"
    and "resolution \<noteq> SWTIMER_S"
    and "swtimersys_poll_timer hw (deref mem (swtimersys_p t)) = Inr c"
    and "swtimer_get_time mem hw (Some t) resolution = Inr (t', v)"
  shows "get_time_for_tick_count d n resolution = n
       \<and> swtimer_get_time mem hw (Some t) resolution
           = swtimer_get_time mem hw (Some t) SWTIMER_TIMERTICK
       \<and> v = get_elapsed_ticks (swtimer_timer_mask t) (start_tick_count t) c"
proof -
  have "v = get_time_for_tick_count (swtimer_tick_duration_ns t)
              (get_elapsed_ticks (swtimer_timer_mask t) (start_tick_count t) c) resolution"
    using assms(6,7) by (rule swtimer_get_time_value)
  then show ?thesis
    using assms(2-5) by (simp add: get_time_default swtimer_get_time_default)
qed

theorem undefined_resolution_raw_ticks_witness:
  "(7 :: swtimer_resolution_t) \<noteq> SWTIMER_TIMERTICK \<and> (7 :: swtimer_resolution_t) \<noteq> SWTIMER_NS
   \<and> (7 :: swtimer_resolution_t) \<noteq> SWTIMER_US \<and> (7 :: swtimer_resolution_t) \<noteq> SWTIMER_MS
   \<and> (7 :: swtimer_resolution_t) \<noteq> SWTIMER_S
   \<and> swtimersys_poll_timer () (deref (example_mem 2) (swtimersys_p (example_timer 250 0 0 250)))
       = Inr 2
   \<and> swtimer_get_time (example_mem 2) () (Some (example_timer 250 0 0 250)) 7
       = Inr (example_timer 250 0 0 250, 8)
   \<and> get_time_for_tick_count 1000 8 7 = 8
   \<and> swtimer_get_time (example_mem 2) () (Some (example_timer 250 0 0 250)) 7
       = swtimer_get_time (example_mem 2) () (Some (example_timer 250 0 0 250)) SWTIMER_TIMERTICK
   \<and> (8 :: uint64_t)
       = get_elapsed_ticks (swtimer_timer_mask (example_timer 250 0 0 250))
           (start_tick_count (example_timer 250 0 0 250)) 2"
proof -
  have h1: "(7 :: swtimer_resolution_t) \<noteq> SWTIMER_TIMERTICK"
    and h2: "(7 :: swtimer_resolution_t) \<noteq> SWTIMER_NS"
    and h3: "(7 :: swtimer_resolution_t) \<noteq> SWTIMER_US"
    and h4: "(7 :: swtimer_resolution_t) \<noteq> SWTIMER_MS"
    and h5: "(7 :: swtimer_resolution_t) \<noteq> SWTIMER_S"
    by (simp_all add: swtimer_defs)
  have h6: "swtimersys_poll_timer ()
      (deref (example_mem 2) (swtimersys_p (example_timer 250 0 0 250))) = Inr 2"
    by (simp add: swtimersys_defs example_defs)
  have h7: "swtimer_get_time (example_mem 2) () (Some (example_timer 250 0 0 250)) 7
      = Inr (example_timer 250 0 0 250, 8)"
    by (simp add: swtimersys_defs swtimer_defs example_defs)
  from undefined_resolution_raw_ticks [OF h1 h2 h3 h4 h5 h6 h7, of 1000 8]
  show ?thesis
    using h1 h2 h3 h4 h5 h6 h7 by simp
qed

section \<open>The tick counter\<close>

lemma swtimersys_tick_Inr:
  assumes "swtimersys_tick (Some s) n = Inr s'"
  shows "tick_counter s' = (tick_counter s + n) AND timer_mask s"
    and "timer_mask s' = timer_mask s"
  using assms
  by (auto simp: swtimersys_tick_def Let_def split: if_splits)

lemma swtimersys_tick_le_mask:
  assumes "swtimersys_tick (Some s) n = Inr s'"
  shows "tick_counter s' \<le> timer_mask s'"
  using swtimersys_tick_Inr [OF assms] by (simp add: word_and_le1)

lemma swtimersys_ticks_inv:
  "swtimersys_ticks s ns = Inr s' \<Longrightarrow> tick_counter s \<le> timer_mask s \<Longrightarrow>
   tick_counter s' \<le> timer_mask s' \<and> timer_mask s' = timer_mask s"
proof (induction ns arbitrary: s)
  case Nil
  then show ?case by simp
next
  case (Cons n ns)
  then obtain s1 where s1: "swtimersys_tick (Some s) n = Inr s1"
    and rest: "swtimersys_ticks s1 ns = Inr s'"
    by (auto split: sum.splits)
  from Cons.IH [OF rest swtimersys_tick_le_mask [OF s1]] swtimersys_tick_Inr(2) [OF s1]
  show ?case by auto
qed

lemma unat_add_and_mask:
  fixes a n :: uint64_t
  assumes "k \<le> 64"
  shows "unat ((a + n) AND mask k) = (unat a + unat n) mod 2 ^ k"
proof -
  have "(a + n) AND mask k = take_bit k (a + n)"
    by (simp only: take_bit_eq_mask)
  then have "unat ((a + n) AND mask k) = take_bit k (unat (a + n))"
    by (simp only: unsigned_take_bit_eq)
  also have "\<dots> = unat (a + n) mod 2 ^ k"
    by (simp only: take_bit_eq_mod)
  also have "\<dots> = ((unat a + unat n) mod 2 ^ 64) mod 2 ^ k"
    by (simp add: unat_word_ariths)
  also have "\<dots> = (unat a + unat n) mod 2 ^ k"
    using assms by (intro mod_mod_cancel le_imp_power_dvd)
  finally show ?thesis .
qed

text \<open>
  C9: the tick counter is at most the timer mask after \<open>swtimersys_init\<close> and after every
  \<open>swtimersys_tick\<close>. For a timer system \<open>s0\<close> that \<open>swtimersys_init\<close> returned, its state
  \<open>s\<close> after any sequence of \<open>swtimersys_tick\<close> calls and its state \<open>s'\<close> after one more
  call with \<open>n\<close> ticks: the counter of each is at most its mask, and the call adds \<open>n\<close> to
  the counter and masks the sum with the timer mask, which makes it
  \<open>(counter + n) mod 2 ^ width_bits\<close>.
\<close>

theorem tick_counter_le_timer_mask:
  assumes "swtimersys_init sp duration_ns width_bits cb = Inr s0"
    and "swtimersys_ticks s0 ns = Inr s"
    and "swtimersys_tick (Some s) n = Inr s'"
  shows "tick_counter s0 \<le> timer_mask s0
       \<and> tick_counter s \<le> timer_mask s
       \<and> tick_counter s' = (tick_counter s + n) AND timer_mask s
       \<and> tick_counter s' \<le> timer_mask s'
       \<and> unat (tick_counter s') = (unat (tick_counter s) + unat n) mod 2 ^ unat width_bits"
proof -
  note init = swtimersys_init_Inr [OF assms(1)]
  have s0: "tick_counter s0 \<le> timer_mask s0"
    using init(1) by simp
  from swtimersys_ticks_inv [OF assms(2) s0]
  have s: "tick_counter s \<le> timer_mask s" and m: "timer_mask s = timer_mask s0"
    by blast+
  note step = swtimersys_tick_Inr [OF assms(3)]
  have w: "unat width_bits \<le> 64"
    using init(3) by (simp add: word_le_nat_alt)
  have "tick_counter s' = (tick_counter s + n) AND mask (unat width_bits)"
    using step(1) m init(2) by (simp add: create_mask_eq_mask)
  then have "unat (tick_counter s') = (unat (tick_counter s) + unat n) mod 2 ^ unat width_bits"
    using w by (simp only: unat_add_and_mask)
  with s0 s step(1) swtimersys_tick_le_mask [OF assms(3)] show ?thesis
    by simp
qed

theorem tick_counter_le_timer_mask_witness:
  "swtimersys_init (Some swtimersys_zero) 1000 8 None = Inr (example_sys 0)
   \<and> swtimersys_ticks (example_sys 0) [200, 100] = Inr (example_sys 44)
   \<and> swtimersys_tick (Some (example_sys 44)) 250 = Inr (example_sys 38)
   \<and> tick_counter (example_sys 0) \<le> timer_mask (example_sys 0)
   \<and> tick_counter (example_sys 44) \<le> timer_mask (example_sys 44)
   \<and> tick_counter (example_sys 38) = (tick_counter (example_sys 44) + 250) AND timer_mask (example_sys 44)
   \<and> tick_counter (example_sys 38) \<le> timer_mask (example_sys 38)
   \<and> unat (tick_counter (example_sys 38))
       = (unat (tick_counter (example_sys 44)) + unat (250 :: uint64_t)) mod 2 ^ unat (8 :: uint8_t)"
proof -
  have h1: "swtimersys_init (Some swtimersys_zero) 1000 8 None = Inr (example_sys 0)"
    by (simp add: swtimersys_defs example_defs create_mask_8)
  have h2: "swtimersys_ticks (example_sys 0) [200, 100] = Inr (example_sys 44)"
    by (simp add: swtimersys_defs example_defs)
  have h3: "swtimersys_tick (Some (example_sys 44)) 250 = Inr (example_sys 38)"
    by (simp add: swtimersys_defs example_defs)
  from tick_counter_le_timer_mask [OF h1 h2 h3] show ?thesis
    using h1 h2 h3 by blast
qed

section \<open>Starvation tracking\<close>

lemma swtimer_init_limit:
  "swtimer_init mem tp sp limit = Inr t \<Longrightarrow> invocation_limit (starvation_tracking t) = limit"
  by (auto simp: swtimer_init_def swtimer_zero_def split: option.splits if_splits sum.splits)

lemma swtimer_start_limit:
  "swtimer_start mem hw (Some t) = Inr t' \<Longrightarrow>
   invocation_limit (starvation_tracking t') = invocation_limit (starvation_tracking t)"
  by (auto simp: swtimer_start_def init_starvation_tracking_def Let_def split: sum.splits)

lemma swtimer_start_not_starving: "swtimer_start mem hw tp \<noteq> Inl Assert_Starving"
  by (auto simp: swtimer_start_def swtimersys_poll_timer_def Let_def
      split: sum.splits option.splits)

text \<open>
  What \<open>swtimer_start\<close> does to the tracking data: the last tick count becomes the start
  tick, the invocation count stays.
\<close>

lemma swtimer_start_tracking:
  assumes "swtimer_start mem hw (Some t) = Inr t'"
  shows "last_tick_count (starvation_tracking t') = start_tick_count t'"
    and "invocation_count (starvation_tracking t') = invocation_count (starvation_tracking t)"
  using assms
  by (auto simp: swtimer_start_def init_starvation_tracking_def Let_def split: sum.splits)

lemma is_timer_starving_disabled:
  "invocation_limit st = 0 \<Longrightarrow> is_timer_starving st n = (False, st)"
  by (simp add: is_timer_starving_def is_starvation_tracking_enabled_def)

lemma swtimer_get_time_disabled:
  assumes "invocation_limit (starvation_tracking t) = 0"
  shows "swtimer_get_time mem hw (Some t) r \<noteq> Inl Assert_Starving"
    and "swtimer_get_time mem hw (Some t) r = Inr (t', v) \<Longrightarrow> t' = t"
  using assms
  by (auto simp: swtimer_get_time_def is_timer_starving_disabled swtimersys_poll_timer_def
      split: sum.splits option.splits)

lemma swtimer_calls_disabled:
  "invocation_limit (starvation_tracking t) = 0 \<Longrightarrow> swtimer_calls cs t \<noteq> Inl Assert_Starving"
proof (induction cs t rule: swtimer_calls.induct)
  case (1 t)
  then show ?case by simp
next
  case (2 mem hw cs t)
  show ?case
  proof (cases "swtimer_start mem hw (Some t)")
    case (Inl e)
    with swtimer_start_not_starving [of mem hw "Some t"] show ?thesis by auto
  next
    case (Inr t')
    with 2 swtimer_start_limit [OF Inr] show ?thesis by simp
  qed
next
  case (3 mem hw resolution cs t)
  show ?case
  proof (cases "swtimer_get_time mem hw (Some t) resolution")
    case (Inl e)
    with swtimer_get_time_disabled(1) [OF "3.prems", of mem hw resolution] show ?thesis by auto
  next
    case (Inr p)
    obtain t' v where p: "p = (t', v)" by (cases p)
    with Inr have "swtimer_get_time mem hw (Some t) resolution = Inr (t', v)" by simp
    then have "t' = t" by (rule swtimer_get_time_disabled(2) [OF "3.prems"])
    with 3 Inr p show ?thesis by simp
  qed
qed

text \<open>
  C7: a timer that \<open>swtimer_init\<close> initialized with the invocation limit 0 never signals
  starvation: no sequence of \<open>swtimer_start\<close> and \<open>swtimer_get_time\<close> calls on it, in whatever
  states of the timer system, ends in the starvation assertion. That covers any number of
  consecutive \<open>swtimer_get_time\<close> calls at one static tick value.
\<close>

theorem starvation_disabled_never_signals:
  assumes "swtimer_init mem0 tp sp 0 = Inr t0"
  shows "swtimer_calls cs t0 \<noteq> Inl Assert_Starving"
  using swtimer_init_limit [OF assms] by (rule swtimer_calls_disabled)

theorem starvation_disabled_never_signals_witness:
  "swtimer_init (example_mem 5) (Some swtimer_zero) 1 0 = Inr (example_timer 0 0 0 0)
   \<and> swtimer_calls
        [(example_mem 5, (), Call_start),
         (example_mem 5, (), Call_get_time SWTIMER_US),
         (example_mem 5, (), Call_get_time SWTIMER_US),
         (example_mem 5, (), Call_get_time SWTIMER_US),
         (example_mem 5, (), Call_get_time SWTIMER_US)]
        (example_timer 0 0 0 0) = Inr (example_timer 5 0 0 5)
   \<and> swtimer_calls
        [(example_mem 5, (), Call_start),
         (example_mem 5, (), Call_get_time SWTIMER_US),
         (example_mem 5, (), Call_get_time SWTIMER_US),
         (example_mem 5, (), Call_get_time SWTIMER_US),
         (example_mem 5, (), Call_get_time SWTIMER_US)]
        (example_timer 0 0 0 0) \<noteq> Inl Assert_Starving"
proof -
  have h: "swtimer_init (example_mem 5) (Some swtimer_zero) 1 0 = Inr (example_timer 0 0 0 0)"
    by (simp add: swtimersys_defs swtimer_defs example_defs)
  have r: "swtimer_calls
        [(example_mem 5, (), Call_start),
         (example_mem 5, (), Call_get_time SWTIMER_US),
         (example_mem 5, (), Call_get_time SWTIMER_US),
         (example_mem 5, (), Call_get_time SWTIMER_US),
         (example_mem 5, (), Call_get_time SWTIMER_US)]
        (example_timer 0 0 0 0) = Inr (example_timer 5 0 0 5)"
    by (simp add: swtimersys_defs swtimer_defs example_defs)
  from starvation_disabled_never_signals [OF h] h r show ?thesis
    by blast
qed

text \<open>
  C2, on the code. \<open>swtimer_get_time\<close> passes the elapsed ticks, not the tick count polled,
  to \<open>is_timer_starving\<close>, while \<open>swtimer_start\<close> leaves the start tick in \<open>last_tick_count\<close>.
  An 8 bit timer system is initialized and advanced to tick 5, where it stays; a timer with
  the invocation limit 3 is initialized and started on it. The first three
  \<open>swtimer_get_time\<close> calls return: the first finds the elapsed ticks 0 different from the
  last tick count 5 and leaves the invocation count at 0, so that the third call leaves it
  at 2. It is the fourth call that signals starvation, not the third. When the timer
  system has advanced to tick 10 instead, a call resets the count. And a timer with the
  invocation limit 1 that is started at tick 5 and read at tick 10 signals starvation
  although the timer system has advanced: the elapsed ticks 5 equal the last tick count 5.
\<close>

theorem static_source_starvation_call_count:
  "swtimersys_init (Some swtimersys_zero) 1000 8 None = Inr (example_sys 0)
   \<and> swtimersys_tick (Some (example_sys 0)) 5 = Inr (example_sys 5)
   \<and> swtimer_init (example_mem 5) (Some swtimer_zero) 1 3 = Inr (example_timer 0 3 0 0)
   \<and> swtimer_start (example_mem 5) () (Some (example_timer 0 3 0 0))
       = Inr (example_timer 5 3 0 5)
   \<and> swtimer_calls
        [(example_mem 5, (), Call_get_time SWTIMER_TIMERTICK),
         (example_mem 5, (), Call_get_time SWTIMER_TIMERTICK),
         (example_mem 5, (), Call_get_time SWTIMER_TIMERTICK)]
        (example_timer 5 3 0 5) = Inr (example_timer 5 3 2 0)
   \<and> swtimer_get_time (example_mem 5) () (Some (example_timer 5 3 2 0)) SWTIMER_TIMERTICK
       = Inl Assert_Starving
   \<and> swtimer_get_time (example_mem 10) () (Some (example_timer 5 3 2 0)) SWTIMER_TIMERTICK
       = Inr (example_timer 5 3 0 5, 5)
   \<and> swtimer_start (example_mem 5) () (Some (example_timer 0 1 0 0))
       = Inr (example_timer 5 1 0 5)
   \<and> swtimer_get_time (example_mem 10) () (Some (example_timer 5 1 0 5)) SWTIMER_TIMERTICK
       = Inl Assert_Starving"
  by (simp add: swtimersys_defs swtimer_defs example_defs create_mask_8)

text \<open>
  C3, on the code. The value \<open>swtimer_get_time\<close> compares with \<open>last_tick_count\<close> and stores
  there is the result of \<open>get_elapsed_ticks\<close>, not the tick count polled. A timer with the
  invocation limit 3 is started at tick 5, which leaves the last tick count 5 and the
  invocation count 0. Read at tick 5, the tick count polled equals the last tick count, yet
  the invocation count is not incremented and the last tick count becomes 0, the elapsed
  ticks. Read at tick 10 instead, the tick count polled differs from the last tick count,
  yet the invocation count is incremented to 1 and the last tick count becomes 5, the
  elapsed ticks.
\<close>

theorem get_time_tracks_elapsed_ticks:
  "swtimer_start (example_mem 5) () (Some (example_timer 0 3 0 0))
     = Inr (example_timer 5 3 0 5)
   \<and> swtimersys_poll_timer () (deref (example_mem 5) 1) = Inr 5
   \<and> swtimer_get_time (example_mem 5) () (Some (example_timer 5 3 0 5)) SWTIMER_TIMERTICK
       = Inr (example_timer 5 3 0 0, 0)
   \<and> swtimersys_poll_timer () (deref (example_mem 10) 1) = Inr 10
   \<and> swtimer_get_time (example_mem 10) () (Some (example_timer 5 3 0 5)) SWTIMER_TIMERTICK
       = Inr (example_timer 5 3 1 5, 5)"
  by (simp add: swtimersys_defs swtimer_defs example_defs)

text \<open>
  C4, on the code. \<open>init_starvation_tracking\<close> assigns \<open>last_tick_count\<close> only, so
  \<open>swtimer_start\<close> keeps the invocation count. A timer with the invocation limit 3 is
  initialized and started on a timer system that stands at tick 0; two \<open>swtimer_get_time\<close>
  calls raise its invocation count to 2. A second \<open>swtimer_start\<close> leaves the count at 2,
  not at 0, and the first \<open>swtimer_get_time\<close> call after it signals starvation.
\<close>

theorem start_keeps_invocation_count:
  "swtimer_init (example_mem 0) (Some swtimer_zero) 1 3 = Inr (example_timer 0 3 0 0)
   \<and> swtimer_calls
        [(example_mem 0, (), Call_start),
         (example_mem 0, (), Call_get_time SWTIMER_TIMERTICK),
         (example_mem 0, (), Call_get_time SWTIMER_TIMERTICK)]
        (example_timer 0 3 0 0) = Inr (example_timer 0 3 2 0)
   \<and> swtimer_start (example_mem 0) () (Some (example_timer 0 3 2 0))
       = Inr (example_timer 0 3 2 0)
   \<and> swtimer_get_time (example_mem 0) () (Some (example_timer 0 3 2 0)) SWTIMER_TIMERTICK
       = Inl Assert_Starving"
  by (simp add: swtimersys_defs swtimer_defs example_defs)

section \<open>Polling\<close>

lemma swtimersys_poll_timer_Some:
  "swtimersys_poll_timer hw (Some sys) =
     Inr (case poll_cb sys of Some cb \<Rightarrow> cb (user_data_p sys) hw | None \<Rightarrow> tick_counter sys)"
  by (simp add: swtimersys_poll_timer_def split: option.splits)

text \<open>
  C8, on the code. \<open>swtimersys_poll_timer\<close> calls the poll callback with the field
  \<open>user_data_p\<close>, and \<open>swtimersys_init\<close>, which swtimersys.h declares with a fifth parameter
  \<open>user_data_p\<close>, is defined with four and never assigns that field. After the
  initialization with a poll callback the field holds what the object held before: the
  callback of a zero-filled object is called with \<open>NULL\<close>, that of an object whose field held
  the address 7 with 7, whatever context the caller meant to configure.
\<close>

theorem init_leaves_user_data:
  "(case swtimersys_init (Some swtimersys_zero) 1000 8 (Some context_cb) of
      Inl e \<Rightarrow> None
    | Inr s \<Rightarrow> Some (user_data_p s, swtimersys_poll_timer () (Some s)))
     = Some (0, Inr 0)
   \<and> (case swtimersys_init (Some (swtimersys_zero\<lparr>user_data_p := 7\<rparr>)) 1000 8
            (Some context_cb) of
      Inl e \<Rightarrow> None
    | Inr s \<Rightarrow> Some (user_data_p s, swtimersys_poll_timer () (Some s)))
     = Some (7, Inr 7)"
  by (simp add: swtimersys_defs example_defs)

end
